theory Spec2Isabelle
  imports Main
begin

section \<open>Browser storage and the token manager\<close>

text \<open>
  The dashboard (\<^verbatim>\<open>src/app/dashboard/page.tsx\<close>) keeps three entries in the browser's
  \<^verbatim>\<open>localStorage\<close>. The storage is a finite map from keys to strings:
  \<^verbatim>\<open>getItem\<close> answers \<^verbatim>\<open>null\<close> (here \<open>None\<close>) for a key that is absent,
  \<^verbatim>\<open>setItem\<close> overwrites, \<^verbatim>\<open>removeItem\<close> deletes. Storage calls are synchronous
  and the model runs one handler at a time.

  \<^verbatim>\<open>setItem\<close> is the one storage call that can raise: the browser refuses a write that
  does not fit its quota with a \<^verbatim>\<open>QuotaExceededError\<close> and leaves the storage as it
  was. Whether a write fits is the browser's decision, so it is a parameter of the
  model: a \<open>quota\<close> says, for the storage as it is, a key and a value, whether the write
  is accepted. The source never catches this error around \<^verbatim>\<open>setTokens\<close>.
\<close>

datatype js_error = Error string | FetchFailed | BodyFailed | QuotaExceededError

type_synonym storage = "string \<rightharpoonup> string"

type_synonym quota = "storage \<Rightarrow> string \<Rightarrow> string \<Rightarrow> bool"

definition getItem :: "storage \<Rightarrow> string \<Rightarrow> string option" where
  "getItem st k = st k"

definition setItem :: "quota \<Rightarrow> string \<Rightarrow> string \<Rightarrow> storage \<Rightarrow> js_error + storage" where
  "setItem hasRoom k v st =
     (if hasRoom st k v then Inr (st(k \<mapsto> v)) else Inl QuotaExceededError)"

definition removeItem :: "string \<Rightarrow> storage \<Rightarrow> storage" where
  "removeItem k st = st(k := None)"

text \<open>Two browsers: one that accepts every write, one that refuses a value longer than
  \<open>n\<close> characters.\<close>

definition unlimited :: quota where
  "unlimited st k v = True"

definition valueLimit :: "nat \<Rightarrow> quota" where
  "valueLimit n st k v = (length v \<le> n)"

text \<open>
  JavaScript truthiness of a value of type \<^verbatim>\<open>string | null\<close>: \<^verbatim>\<open>null\<close> and the empty
  string are falsy, every other string is truthy.
\<close>

definition truthy :: "string option \<Rightarrow> bool" where
  "truthy v = (case v of None \<Rightarrow> False | Some s \<Rightarrow> s \<noteq> [])"

definition TOKEN_REFRESH_THRESHOLD :: int where
  "TOKEN_REFRESH_THRESHOLD = 5 * 60"

definition CHAT_ID_STORAGE_KEY :: string where
  "CHAT_ID_STORAGE_KEY = ''active_chat_id''"

definition getAccessToken :: "storage \<Rightarrow> string option" where
  "getAccessToken st = getItem st ''token''"

definition getRefreshToken :: "storage \<Rightarrow> string option" where
  "getRefreshToken st = getItem st ''refresh_token''"

text \<open>
  \<^verbatim>\<open>setTokens\<close> writes the access token, then the refresh token. It returns the error
  that escaped, if any, and the storage it left: when the second write is refused, the
  first one has happened.
\<close>

definition setTokens :: "quota \<Rightarrow> string \<Rightarrow> string \<Rightarrow> storage \<Rightarrow> js_error option \<times> storage" where
  "setTokens hasRoom accessToken refreshToken st =
     (case setItem hasRoom ''token'' accessToken st of
        Inl e \<Rightarrow> (Some e, st)
      | Inr st1 \<Rightarrow>
          (case setItem hasRoom ''refresh_token'' refreshToken st1 of
             Inl e \<Rightarrow> (Some e, st1)
           | Inr st2 \<Rightarrow> (None, st2)))"

definition clearTokens :: "storage \<Rightarrow> storage" where
  "clearTokens st =
     removeItem CHAT_ID_STORAGE_KEY (removeItem ''refresh_token'' (removeItem ''token'' st))"

definition hasValidTokens :: "storage \<Rightarrow> bool" where
  "hasValidTokens st = (truthy (getItem st ''token'') \<and> truthy (getItem st ''refresh_token''))"

section \<open>Expiry check\<close>

text \<open>
  \<^verbatim>\<open>jwtDecode\<close> comes from the library \<^verbatim>\<open>jwt-decode\<close>, so it is a parameter of the
  model: it maps a token to its payload, or to \<open>None\<close> where the library throws. The
  payload's \<^verbatim>\<open>exp\<close> is optional and counts whole unix seconds. \<^verbatim>\<open>Date.now()\<close> is the
  second parameter, in milliseconds; \<open>div\<close> on \<open>int\<close> rounds down as \<^verbatim>\<open>Math.floor\<close>
  does.
\<close>

record JWTPayload =
  exp :: "int option"
  type :: "string option"

definition isTokenExpiringSoon ::
  "(string \<Rightarrow> 'a JWTPayload_scheme option) \<Rightarrow> int \<Rightarrow> string \<Rightarrow> bool" where
  "isTokenExpiringSoon jwtDecode dateNow token =
     (case jwtDecode token of
        None \<Rightarrow> False
      | Some decoded \<Rightarrow>
          (case exp decoded of
             None \<Rightarrow> False
           | Some e \<Rightarrow>
               if e = 0 then False
               else let currentTime = dateNow div 1000
                    in e - currentTime < TOKEN_REFRESH_THRESHOLD))"

section \<open>The dashboard's state and the backend's answers\<close>

text \<open>
  The interfaces of the source become records. A field that the backend may leave out
  is optional; the fields are typed as the interfaces type them. Chat messages are
  opaque to the dashboard. The \<^verbatim>\<open>sessions\<close> of the session-list response is
  \<open>sessions_field\<close> here, since the component's state has a \<open>sessions\<close> of its own.

  The source never tests \<^verbatim>\<open>active_chat_id\<close> before it stores and returns it, so the
  field keeps apart what JavaScript keeps apart: a body without the field
  (\<^verbatim>\<open>undefined\<close>), a \<^verbatim>\<open>null\<close>, and a string. \<^verbatim>\<open>setItem\<close> stores the value as
  \<^verbatim>\<open>String(value)\<close>; the caller gets the value itself, which is no string for the
  first two.
\<close>

record TokenResponse =
  access_token :: "string option"
  refresh_token :: "string option"
  token_type :: "string option"

datatype js_string = Undefined | Null | Str string

fun toString :: "js_string \<Rightarrow> string" where
  "toString Undefined = ''undefined''"
| "toString Null = ''null''"
| "toString (Str s) = s"

fun asString :: "js_string \<Rightarrow> string option" where
  "asString (Str s) = Some s"
| "asString _ = None"

record ChatIdResponse =
  active_chat_id :: js_string

type_synonym message = string

record ChatHistoryResponse =
  history :: "message list option"

record ChatSession =
  chat_id :: string
  title :: string

record ChatSessionsResponse =
  sessions_field :: "ChatSession list option"

text \<open>
  What \<^verbatim>\<open>await fetch(...)\<close> gives: the promise rejects (a transport failure), or it
  resolves to a response with its \<^verbatim>\<open>ok\<close> flag and a body. The body is \<open>None\<close> where
  reading it throws: \<^verbatim>\<open>response.json()\<close> rejects, or the body is \<^verbatim>\<open>null\<close> and the
  first property access on it throws, which reaches the same handler.
\<close>

datatype 'a fetched = Rejected | Response bool "'a option"

datatype request =
    PostRefresh string
  | PostSetChatId string
  | GetHistory string string
  | GetSessions string

text \<open>
  The world a handler runs in: the storage and the quota the browser enforces on it, the
  component's React state (\<^verbatim>\<open>loading\<close>, \<^verbatim>\<open>chatId\<close>, \<^verbatim>\<open>initialMessages\<close>,
  \<^verbatim>\<open>sessions\<close>), and logs of what the handler did to the outside: the requests it
  sent, in order, how often it called \<^verbatim>\<open>window.location.reload()\<close>, and where
  \<^verbatim>\<open>router.push\<close> sent the user. Console output is not modelled.
\<close>

record world =
  localStorage :: storage
  hasRoom :: quota
  loading :: bool
  chatId :: "string option"
  initialMessages :: "message list"
  sessions :: "ChatSession list"
  fetches :: "request list"
  reloads :: nat
  navigations :: "string list"

text \<open>
  The component as it mounts: the initial values of its \<^verbatim>\<open>useState\<close> hooks, over
  whatever the storage holds and whatever quota the browser enforces, with nothing sent
  yet.
\<close>

definition mounted :: "quota \<Rightarrow> storage \<Rightarrow> world" where
  "mounted q st =
     \<lparr>localStorage = st, hasRoom = q, loading = True, chatId = None, initialMessages = [],
      sessions = [], fetches = [], reloads = 0, navigations = []\<rparr>"

text \<open>A decoder that knows one token and throws on every other string.\<close>

definition decodeOnly ::
  "string \<Rightarrow> 'a JWTPayload_scheme \<Rightarrow> string \<Rightarrow> 'a JWTPayload_scheme option" where
  "decodeOnly known payload token = (if token = known then Some payload else None)"

definition fetch :: "request \<Rightarrow> world \<Rightarrow> world" where
  "fetch r w = w\<lparr>fetches := fetches w @ [r]\<rparr>"

section \<open>Refreshing the tokens\<close>

text \<open>
  \<open>refreshTokens\<close> raises before the request (no refresh token), on the request (a
  transport failure, a response that is not ok, an unreadable or incomplete body), and
  on the write: an error of \<open>setTokens\<close> escapes it with the storage as \<open>setTokens\<close>
  left it.
\<close>

definition refreshTokens :: "TokenResponse fetched \<Rightarrow> world \<Rightarrow> (js_error + string \<times> string) \<times> world" where
  "refreshTokens response w =
     (case getRefreshToken (localStorage w) of
        None \<Rightarrow> (Inl (Error ''No refresh token available''), w)
      | Some refreshToken \<Rightarrow>
          if refreshToken = [] then (Inl (Error ''No refresh token available''), w)
          else
            let w1 = fetch (PostRefresh refreshToken) w in
            (case response of
               Rejected \<Rightarrow> (Inl FetchFailed, w1)
             | Response ok body \<Rightarrow>
                 if \<not> ok then (Inl (Error ''Failed to refresh token''), w1)
                 else
                   (case body of
                      None \<Rightarrow> (Inl BodyFailed, w1)
                    | Some data \<Rightarrow>
                        (case (access_token data, refresh_token data) of
                           (Some a, Some r) \<Rightarrow>
                             if a = [] \<or> r = [] then (Inl (Error ''Invalid token response''), w1)
                             else
                               (case setTokens (hasRoom w1) a r (localStorage w1) of
                                  (Some e, st) \<Rightarrow> (Inl e, w1\<lparr>localStorage := st\<rparr>)
                                | (None, st) \<Rightarrow> (Inr (a, r), w1\<lparr>localStorage := st\<rparr>))
                         | _ \<Rightarrow> (Inl (Error ''Invalid token response''), w1)))))"

definition getValidToken ::
  "(string \<Rightarrow> 'a JWTPayload_scheme option) \<Rightarrow> int \<Rightarrow> TokenResponse fetched \<Rightarrow> world \<Rightarrow>
     string option \<times> world" where
  "getValidToken jwtDecode dateNow response w =
     (if \<not> hasValidTokens (localStorage w) then (None, w)
      else
        (case getAccessToken (localStorage w) of
           None \<Rightarrow> (None, w)
         | Some token \<Rightarrow>
             if token \<noteq> [] \<and> isTokenExpiringSoon jwtDecode dateNow token then
               (case refreshTokens response w of
                  (Inr (accessToken, _), w') \<Rightarrow> (Some accessToken, w')
                | (Inl _, w') \<Rightarrow> (None, w'\<lparr>localStorage := clearTokens (localStorage w')\<rparr>))
             else (Some token, w)))"

text \<open>
  The callback that \<^verbatim>\<open>setInterval\<close> runs every 60 seconds. Its \<^verbatim>\<open>catch\<close> handler
  runs once the promise of \<open>refreshTokens\<close> has rejected; the model runs it right after.
\<close>

definition refreshInterval ::
  "(string \<Rightarrow> 'a JWTPayload_scheme option) \<Rightarrow> int \<Rightarrow> TokenResponse fetched \<Rightarrow> world \<Rightarrow> world" where
  "refreshInterval jwtDecode dateNow response w =
     (case getAccessToken (localStorage w) of
        None \<Rightarrow> w
      | Some token \<Rightarrow>
          if token \<noteq> [] \<and> isTokenExpiringSoon jwtDecode dateNow token then
            (case refreshTokens response w of
               (Inr _, w') \<Rightarrow> w'
             | (Inl _, w') \<Rightarrow>
                 w'\<lparr>localStorage := clearTokens (localStorage w'),
                    navigations := navigations w' @ [''/'']\<rparr>)
          else w)"

section \<open>Chat identifier, history and sessions\<close>

text \<open>
  In \<open>getActiveChatId\<close> the write of the new identifier stands inside the \<^verbatim>\<open>try\<close>
  block, so a refused write is caught there and the answer is \<^verbatim>\<open>null\<close>. In
  \<open>handleSelectChat\<close> nothing catches it: the handler stops after
  \<^verbatim>\<open>setLoading(true)\<close> and the error escapes, returned here beside the world.
\<close>

definition getActiveChatId :: "string \<Rightarrow> ChatIdResponse fetched \<Rightarrow> world \<Rightarrow> string option \<times> world" where
  "getActiveChatId token response w =
     (let storedChatId = getItem (localStorage w) CHAT_ID_STORAGE_KEY in
      if truthy storedChatId then (storedChatId, w)
      else
        let w1 = fetch (PostSetChatId token) w in
        (case response of
           Rejected \<Rightarrow> (None, w1)
         | Response ok body \<Rightarrow>
             if \<not> ok then (None, w1)
             else
               (case body of
                  None \<Rightarrow> (None, w1)
                | Some data \<Rightarrow>
                    (case setItem (hasRoom w1) CHAT_ID_STORAGE_KEY
                            (toString (active_chat_id data)) (localStorage w1) of
                       Inl e \<Rightarrow> (None, w1)
                     | Inr st \<Rightarrow> (asString (active_chat_id data), w1\<lparr>localStorage := st\<rparr>)))))"

definition fetchChatHistory :: "string \<Rightarrow> string \<Rightarrow> ChatHistoryResponse fetched \<Rightarrow> world \<Rightarrow> world" where
  "fetchChatHistory id' token response w =
     (let w1 = fetch (GetHistory token id') w in
      case response of
        Rejected \<Rightarrow> w1
      | Response ok body \<Rightarrow>
          if ok then
            (case body of
               None \<Rightarrow> w1
             | Some data \<Rightarrow>
                 w1\<lparr>initialMessages := (case history data of None \<Rightarrow> [] | Some h \<Rightarrow> h)\<rparr>)
          else
            w1\<lparr>localStorage := removeItem CHAT_ID_STORAGE_KEY (localStorage w1),
               reloads := Suc (reloads w1)\<rparr>)"

definition fetchChatSessions :: "string \<Rightarrow> ChatSessionsResponse fetched \<Rightarrow> world \<Rightarrow> world" where
  "fetchChatSessions token response w =
     (let w1 = fetch (GetSessions token) w in
      case response of
        Rejected \<Rightarrow> w1
      | Response ok body \<Rightarrow>
          if ok then
            (case body of
               None \<Rightarrow> w1
             | Some data \<Rightarrow>
                 w1\<lparr>sessions := (case sessions_field data of None \<Rightarrow> [] | Some s \<Rightarrow> s)\<rparr>)
          else w1)"

definition handleSelectChat ::
  "string \<Rightarrow> ChatHistoryResponse fetched \<Rightarrow> world \<Rightarrow> js_error option \<times> world" where
  "handleSelectChat selectedChatId response w =
     (case getAccessToken (localStorage w) of
        None \<Rightarrow> (None, w)
      | Some token \<Rightarrow>
          if token \<noteq> [] \<and> Some selectedChatId \<noteq> chatId w then
            let w1 = w\<lparr>loading := True\<rparr> in
            (case setItem (hasRoom w1) CHAT_ID_STORAGE_KEY selectedChatId (localStorage w1) of
               Inl e \<Rightarrow> (Some e, w1)
             | Inr st \<Rightarrow>
                 let w2 = w1\<lparr>localStorage := st\<rparr>;
                     w3 = w2\<lparr>chatId := Some selectedChatId\<rparr>;
                     w4 = fetchChatHistory selectedChatId token response w3
                 in (None, w4\<lparr>loading := False\<rparr>))
          else (None, w))"

section \<open>The token pair invariant\<close>


section \<open>Facts about the storage and the refresh\<close>

lemmas storage_defs =
  getItem_def setItem_def removeItem_def getAccessToken_def getRefreshToken_def
  setTokens_def clearTokens_def hasValidTokens_def truthy_def CHAT_ID_STORAGE_KEY_def
  unlimited_def valueLimit_def







text \<open>
  With a refresh token in the store, the exchange raises on a transport failure, on a
  response that is not ok, on an unreadable body and on a body without both tokens; the
  request has gone out by then.
\<close>

lemma refreshTokens_fails:
  assumes "getRefreshToken (localStorage w) = Some rt" and "rt \<noteq> []"
    and "response = Rejected \<or> (\<exists>body. response = Response False body) \<or>
         response = Response True None \<or>
         (\<exists>data. response = Response True (Some data) \<and>
            \<not> (truthy (access_token data) \<and> truthy (refresh_token data)))"
  shows "\<exists>e. refreshTokens response w = (Inl e, fetch (PostRefresh rt) w)"
  using assms
  by (auto simp: refreshTokens_def truthy_def Let_def split: option.splits)






section \<open>The refresh commits a pair or raises\<close>




section \<open>The expiry threshold\<close>

text \<open>
  C2, amended. For every access token whose payload decodes and carries an expiry claim
  other than zero, \<open>isTokenExpiringSoon\<close> answers true exactly when the claim is less
  than 300 seconds after the current time in whole seconds; with exactly 300 seconds left
  it answers false.
\<close>

theorem isTokenExpiringSoon_threshold:
  "jwtDecode token = Some decoded \<Longrightarrow> exp decoded = Some e \<Longrightarrow> e \<noteq> 0 \<Longrightarrow>
     (isTokenExpiringSoon jwtDecode dateNow token \<longleftrightarrow> e - dateNow div 1000 < 300) \<and>
     (e - dateNow div 1000 = 300 \<longrightarrow> \<not> isTokenExpiringSoon jwtDecode dateNow token)"
  by (simp add: isTokenExpiringSoon_def TOKEN_REFRESH_THRESHOLD_def)

theorem isTokenExpiringSoon_threshold_witness:
  "decodeOnly ''t'' \<lparr>exp = Some 1300, type = None\<rparr> ''t'' =
     Some \<lparr>exp = Some 1300, type = None\<rparr> \<and>
   (1300::int) \<noteq> 0 \<and> (1300::int) - 1000999 div 1000 = 300 \<and>
   \<not> isTokenExpiringSoon (decodeOnly ''t'' \<lparr>exp = Some 1300, type = None\<rparr>) 1000999 ''t''"
  using isTokenExpiringSoon_threshold
    [of "decodeOnly ''t'' \<lparr>exp = Some 1300, type = None\<rparr>" "''t''"
        "\<lparr>exp = Some 1300, type = None\<rparr>" 1300 1000999]
  by (simp add: decodeOnly_def)

text \<open>
  Without the restriction the statement fails. A payload with \<^verbatim>\<open>exp: 0\<close> decodes and
  carries an expiry claim; at one million milliseconds after the epoch the claim lies 1000
  seconds in the past, which is less than 300 seconds ahead, and the check answers false,
  since \<^verbatim>\<open>!decoded.exp\<close> holds for zero.
\<close>

theorem isTokenExpiringSoon_exp_zero_counterexample:
  "decodeOnly ''t'' \<lparr>exp = Some 0, type = None\<rparr> ''t'' = Some \<lparr>exp = Some 0, type = None\<rparr> \<and>
   (0::int) - 1000000 div 1000 < 300 \<and>
   isTokenExpiringSoon (decodeOnly ''t'' \<lparr>exp = Some 0, type = None\<rparr>) 1000000 ''t'' = False"
  by (simp add: decodeOnly_def isTokenExpiringSoon_def)

text \<open>
  C8. A token whose payload cannot be decoded, and a token whose payload decodes but has
  no expiry claim, is never reported as expiring soon, whatever the clock says. Such a
  token in the store therefore triggers no refresh: \<open>getValidToken\<close> and the periodic
  check leave the world as it is, sending nothing.
\<close>

theorem isTokenExpiringSoon_fail_open:
  assumes "jwtDecode malformed = None"
    and "jwtDecode token = Some decoded" and "exp decoded = None"
  shows "isTokenExpiringSoon jwtDecode dateNow malformed = False \<and>
         isTokenExpiringSoon jwtDecode dateNow token = False \<and>
         (getAccessToken (localStorage w) = Some malformed \<or>
          getAccessToken (localStorage w) = Some token \<longrightarrow>
            snd (getValidToken jwtDecode dateNow response w) = w \<and>
            refreshInterval jwtDecode dateNow response w = w)"
  using assms
  by (auto simp: isTokenExpiringSoon_def getValidToken_def refreshInterval_def)

theorem isTokenExpiringSoon_fail_open_witness:
  "decodeOnly ''hdr.claims.sig'' \<lparr>exp = None, type = Some ''access''\<rparr> ''garbage'' = None \<and>
   decodeOnly ''hdr.claims.sig'' \<lparr>exp = None, type = Some ''access''\<rparr> ''hdr.claims.sig'' =
     Some \<lparr>exp = None, type = Some ''access''\<rparr> \<and>
   getAccessToken (localStorage (mounted unlimited (map_of [(''token'', ''hdr.claims.sig''), (''refresh_token'', ''r1'')]))) =
     Some ''hdr.claims.sig'' \<and>
   isTokenExpiringSoon (decodeOnly ''hdr.claims.sig'' \<lparr>exp = None, type = Some ''access''\<rparr>)
       1700000000000 ''garbage'' = False \<and>
   isTokenExpiringSoon (decodeOnly ''hdr.claims.sig'' \<lparr>exp = None, type = Some ''access''\<rparr>)
       1700000000000 ''hdr.claims.sig'' = False \<and>
   snd (getValidToken (decodeOnly ''hdr.claims.sig'' \<lparr>exp = None, type = Some ''access''\<rparr>)
          1700000000000 Rejected (mounted unlimited (map_of [(''token'', ''hdr.claims.sig''), (''refresh_token'', ''r1'')]))) =
     mounted unlimited (map_of [(''token'', ''hdr.claims.sig''), (''refresh_token'', ''r1'')])"
  using isTokenExpiringSoon_fail_open
    [of "decodeOnly ''hdr.claims.sig'' \<lparr>exp = None, type = Some ''access''\<rparr>" "''garbage''"
        "''hdr.claims.sig''" "\<lparr>exp = None, type = Some ''access''\<rparr>"
        1700000000000 "mounted unlimited (map_of [(''token'', ''hdr.claims.sig''), (''refresh_token'', ''r1'')])" Rejected]
  by (simp add: decodeOnly_def mounted_def storage_defs)

text \<open>
  C10. A token whose payload carries the expiry claim zero is never reported as expiring
  soon: the check treats it like a payload without the claim, although the first second
  of 1970 is long past. Such a token in the store triggers no refresh, neither through
  \<open>getValidToken\<close> nor through the periodic check.
\<close>

theorem isTokenExpiringSoon_exp_zero:
  assumes "jwtDecode token = Some decoded" and "exp decoded = Some 0"
  shows "isTokenExpiringSoon jwtDecode dateNow token = False \<and>
         (getAccessToken (localStorage w) = Some token \<longrightarrow>
            snd (getValidToken jwtDecode dateNow response w) = w \<and>
            refreshInterval jwtDecode dateNow response w = w)"
  using assms
  by (auto simp: isTokenExpiringSoon_def getValidToken_def refreshInterval_def)

theorem isTokenExpiringSoon_exp_zero_witness:
  "decodeOnly ''old'' \<lparr>exp = Some 0, type = None\<rparr> ''old'' = Some \<lparr>exp = Some 0, type = None\<rparr> \<and>
   getAccessToken (localStorage (mounted unlimited (map_of [(''token'', ''old''), (''refresh_token'', ''r1'')]))) = Some ''old'' \<and>
   isTokenExpiringSoon (decodeOnly ''old'' \<lparr>exp = Some 0, type = None\<rparr>) 1700000000000 ''old'' =
     False \<and>
   refreshInterval (decodeOnly ''old'' \<lparr>exp = Some 0, type = None\<rparr>) 1700000000000 Rejected
       (mounted unlimited (map_of [(''token'', ''old''), (''refresh_token'', ''r1'')])) =
     mounted unlimited (map_of [(''token'', ''old''), (''refresh_token'', ''r1'')])"
  using isTokenExpiringSoon_exp_zero
    [of "decodeOnly ''old'' \<lparr>exp = Some 0, type = None\<rparr>" "''old''"
        "\<lparr>exp = Some 0, type = None\<rparr>" 1700000000000
        "mounted unlimited (map_of [(''token'', ''old''), (''refresh_token'', ''r1'')])" Rejected]
  by (simp add: decodeOnly_def mounted_def storage_defs)

section \<open>A failed refresh logs the user out\<close>

text \<open>
  C3. When the store holds a token pair (\<open>hasValidTokens\<close>), the access token is
  expiring soon, and the refresh exchange fails (the request is rejected in transport,
  the response is not ok, its body is unreadable, or the body lacks one of the two
  tokens), \<open>getValidToken\<close> returns \<^verbatim>\<open>null\<close> and the storage afterwards holds neither
  the access token, nor the refresh token, nor the chat identifier.
\<close>

theorem getValidToken_failed_refresh_clears:
  assumes "hasValidTokens (localStorage w)"
    and "getAccessToken (localStorage w) = Some token"
    and "isTokenExpiringSoon jwtDecode dateNow token"
    and "response = Rejected \<or> (\<exists>body. response = Response False body) \<or>
         response = Response True None \<or>
         (\<exists>data. response = Response True (Some data) \<and>
            \<not> (truthy (access_token data) \<and> truthy (refresh_token data)))"
  shows "fst (getValidToken jwtDecode dateNow response w) = None \<and>
         getItem (localStorage (snd (getValidToken jwtDecode dateNow response w))) ''token'' = None \<and>
         getItem (localStorage (snd (getValidToken jwtDecode dateNow response w)))
           ''refresh_token'' = None \<and>
         getItem (localStorage (snd (getValidToken jwtDecode dateNow response w)))
           CHAT_ID_STORAGE_KEY = None"
proof -
  from assms(1) obtain rt where rt: "getRefreshToken (localStorage w) = Some rt" "rt \<noteq> []"
    by (auto simp: storage_defs split: option.splits)
  from assms(1,2) have tok: "token \<noteq> []"
    by (auto simp: storage_defs)
  from refreshTokens_fails [OF rt assms(4)]
  obtain e where "refreshTokens response w = (Inl e, fetch (PostRefresh rt) w)" ..
  with assms(1,2,3) tok
  have "getValidToken jwtDecode dateNow response w =
          (None, (fetch (PostRefresh rt) w)\<lparr>localStorage := clearTokens (localStorage w)\<rparr>)"
    by (simp add: getValidToken_def fetch_def)
  then show ?thesis
    by (simp add: getItem_def clearTokens_def removeItem_def CHAT_ID_STORAGE_KEY_def)
qed

theorem getValidToken_failed_refresh_clears_witness:
  "hasValidTokens (localStorage
       (mounted unlimited
          (map_of [(''token'', ''soon''), (''refresh_token'', ''r1''), (''active_chat_id'', ''c1'')]))) \<and>
   isTokenExpiringSoon (decodeOnly ''soon'' \<lparr>exp = Some 1700000100, type = None\<rparr>)
       1700000000000 ''soon'' \<and>
   fst (getValidToken (decodeOnly ''soon'' \<lparr>exp = Some 1700000100, type = None\<rparr>) 1700000000000
          (Response False None)
          (mounted unlimited
          (map_of [(''token'', ''soon''), (''refresh_token'', ''r1''), (''active_chat_id'', ''c1'')]))) =
     None \<and>
   getItem (localStorage (snd
       (getValidToken (decodeOnly ''soon'' \<lparr>exp = Some 1700000100, type = None\<rparr>) 1700000000000
          (Response False None)
          (mounted unlimited
          (map_of [(''token'', ''soon''), (''refresh_token'', ''r1''), (''active_chat_id'', ''c1'')])))))
     CHAT_ID_STORAGE_KEY = None"
proof -
  let ?w = "mounted unlimited
          (map_of [(''token'', ''soon''), (''refresh_token'', ''r1''), (''active_chat_id'', ''c1'')])"
  let ?d = "decodeOnly ''soon'' \<lparr>exp = Some 1700000100, type = None\<rparr>"
  have h1: "hasValidTokens (localStorage ?w)"
    by (simp add: mounted_def storage_defs)
  have h2: "getAccessToken (localStorage ?w) = Some ''soon''"
    by (simp add: mounted_def storage_defs)
  have h3: "isTokenExpiringSoon ?d 1700000000000 ''soon''"
    by (simp add: isTokenExpiringSoon_def decodeOnly_def TOKEN_REFRESH_THRESHOLD_def)
  have h4: "Response False None = Rejected \<or>
         (\<exists>body. Response False None = Response False body) \<or>
         Response False None = Response True None \<or>
         (\<exists>data::TokenResponse. Response False None = Response True (Some data) \<and>
            \<not> (truthy (access_token data) \<and> truthy (refresh_token data)))"
    by simp
  from getValidToken_failed_refresh_clears [OF h1 h2 h3 h4] h1 h3
  show ?thesis by simp
qed

section \<open>Failures of the history and session fetches\<close>

text \<open>
  C4, amended. Whenever the history fetch comes back with a response that is not ok, the
  persisted chat identifier is removed from the storage and the page is reloaded once,
  whatever identifier was persisted before.
\<close>

theorem fetchChatHistory_not_ok_resets:
  "getItem (localStorage (fetchChatHistory id' token (Response False body) w))
     CHAT_ID_STORAGE_KEY = None \<and>
   reloads (fetchChatHistory id' token (Response False body) w) = Suc (reloads w)"
  by (simp add: fetchChatHistory_def fetch_def getItem_def removeItem_def)

theorem fetchChatHistory_not_ok_resets_witness:
  "getItem (localStorage
       (mounted unlimited
          (map_of [(''token'', ''a1''), (''refresh_token'', ''r1''), (''active_chat_id'', ''c1'')])))
     CHAT_ID_STORAGE_KEY = Some ''c1'' \<and>
   getItem (localStorage (fetchChatHistory ''c1'' ''a1'' (Response False None)
       (mounted unlimited
          (map_of [(''token'', ''a1''), (''refresh_token'', ''r1''), (''active_chat_id'', ''c1'')]))))
     CHAT_ID_STORAGE_KEY = None \<and>
   reloads (fetchChatHistory ''c1'' ''a1'' (Response False None)
       (mounted unlimited
          (map_of [(''token'', ''a1''), (''refresh_token'', ''r1''), (''active_chat_id'', ''c1'')]))) = 1"
  using fetchChatHistory_not_ok_resets
    [of "''c1''" "''a1''" None
        "mounted unlimited
          (map_of [(''token'', ''a1''), (''refresh_token'', ''r1''), (''active_chat_id'', ''c1'')])"]
  by (simp add: mounted_def storage_defs)

text \<open>
  A transport failure takes the other path: the \<^verbatim>\<open>catch\<close> handler only logs. With the
  identifier \<^verbatim>\<open>c1\<close> persisted and the request rejected, the identifier is still in the
  storage afterwards and no reload has happened.
\<close>

theorem fetchChatHistory_transport_failure_counterexample:
  "getItem (localStorage (fetchChatHistory ''c1'' ''a1'' Rejected
       (mounted unlimited
          (map_of [(''token'', ''a1''), (''refresh_token'', ''r1''), (''active_chat_id'', ''c1'')]))))
     CHAT_ID_STORAGE_KEY = Some ''c1'' \<and>
   reloads (fetchChatHistory ''c1'' ''a1'' Rejected
       (mounted unlimited
          (map_of [(''token'', ''a1''), (''refresh_token'', ''r1''), (''active_chat_id'', ''c1'')]))) = 0"
  by (simp add: fetchChatHistory_def fetch_def mounted_def storage_defs)

text \<open>
  C5, amended. Whenever the session-list fetch fails (the request is rejected in
  transport, the response is not ok, or its body is unreadable), the sessions collection
  stays what it was before the call, and so do the chat identifier, the storage with its
  tokens, and the history; nothing is reloaded and the user is sent nowhere.
\<close>

theorem fetchChatSessions_failure_keeps_state:
  assumes "response = Rejected \<or> (\<exists>body. response = Response False body) \<or>
           response = Response True None"
  shows "sessions (fetchChatSessions token response w) = sessions w \<and>
         chatId (fetchChatSessions token response w) = chatId w \<and>
         localStorage (fetchChatSessions token response w) = localStorage w \<and>
         initialMessages (fetchChatSessions token response w) = initialMessages w \<and>
         reloads (fetchChatSessions token response w) = reloads w \<and>
         navigations (fetchChatSessions token response w) = navigations w"
  using assms by (auto simp: fetchChatSessions_def fetch_def)

theorem fetchChatSessions_failure_keeps_state_witness:
  "(Rejected = (Rejected :: ChatSessionsResponse fetched)) \<and>
   sessions (fetchChatSessions ''a1'' Rejected
       ((mounted unlimited (map_of [(''token'', ''a1''), (''refresh_token'', ''r1'')]))
          \<lparr>sessions := [\<lparr>chat_id = ''c1'', title = ''First chat''\<rparr>]\<rparr>)) =
     [\<lparr>chat_id = ''c1'', title = ''First chat''\<rparr>]"
  using fetchChatSessions_failure_keeps_state
    [of Rejected "''a1''" "(mounted unlimited (map_of [(''token'', ''a1''), (''refresh_token'', ''r1'')]))
          \<lparr>sessions := [\<lparr>chat_id = ''c1'', title = ''First chat''\<rparr>]\<rparr>"]
  by (simp add: mounted_def)

text \<open>
  The sessions do not become empty. A first fetch on the mounted component loads one
  session; a second fetch, as \<^verbatim>\<open>handleCreateNewChat\<close> issues it, comes back not ok; the
  collection afterwards still holds that session.
\<close>

theorem fetchChatSessions_failure_counterexample:
  "sessions (fetchChatSessions ''a1'' (Response False None)
       (fetchChatSessions ''a1''
          (Response True
             (Some \<lparr>sessions_field = Some [\<lparr>chat_id = ''c1'', title = ''First chat''\<rparr>]\<rparr>))
          (mounted unlimited (map_of [(''token'', ''a1''), (''refresh_token'', ''r1'')])))) =
     [\<lparr>chat_id = ''c1'', title = ''First chat''\<rparr>] \<and>
   sessions (fetchChatSessions ''a1'' (Response False None)
       (fetchChatSessions ''a1''
          (Response True
             (Some \<lparr>sessions_field = Some [\<lparr>chat_id = ''c1'', title = ''First chat''\<rparr>]\<rparr>))
          (mounted unlimited (map_of [(''token'', ''a1''), (''refresh_token'', ''r1'')])))) \<noteq> []"
  by (simp add: fetchChatSessions_def fetch_def mounted_def)

section \<open>The persisted chat identifier\<close>

text \<open>
  C6, amended. When a chat identifier other than the empty string is persisted,
  \<open>getActiveChatId\<close> returns it and leaves the world as it is: no request is sent and
  the persisted identifier stays. A second call, with any token and any answer the backend
  would have given, returns the same identifier from the same world.
\<close>

theorem getActiveChatId_cache_hit:
  assumes "getItem (localStorage w) CHAT_ID_STORAGE_KEY = Some storedChatId"
    and "storedChatId \<noteq> []"
  shows "getActiveChatId token response w = (Some storedChatId, w) \<and>
         getActiveChatId token' response' (snd (getActiveChatId token response w)) =
           (Some storedChatId, w) \<and>
         fetches (snd (getActiveChatId token response w)) = fetches w \<and>
         getItem (localStorage (snd (getActiveChatId token response w))) CHAT_ID_STORAGE_KEY =
           Some storedChatId"
  using assms by (simp add: getActiveChatId_def truthy_def)

theorem getActiveChatId_cache_hit_witness:
  "getItem (localStorage (mounted unlimited (map_of [(''active_chat_id'', ''c1'')])))
     CHAT_ID_STORAGE_KEY = Some ''c1'' \<and>
   getActiveChatId ''a1'' (Response True (Some \<lparr>active_chat_id = Str ''c2''\<rparr>))
       (mounted unlimited (map_of [(''active_chat_id'', ''c1'')])) =
     (Some ''c1'', mounted unlimited (map_of [(''active_chat_id'', ''c1'')]))"
  using getActiveChatId_cache_hit
    [of "mounted unlimited (map_of [(''active_chat_id'', ''c1'')])" "''c1''" "''a1''"
        "Response True (Some \<lparr>active_chat_id = Str ''c2''\<rparr>)"]
  by (simp add: mounted_def getItem_def CHAT_ID_STORAGE_KEY_def)

text \<open>
  The empty string can be persisted, and it is no cache hit. On a mounted component
  without a chat identifier the backend answers the first call with the empty
  identifier, which line 126 stores as it is. The storage now holds an identifier, yet the
  next call reads it as falsy, sends a second request and overwrites it with the
  backend's new answer.
\<close>

theorem getActiveChatId_empty_id_counterexample:
  "getItem (localStorage (snd
       (getActiveChatId ''a1'' (Response True (Some \<lparr>active_chat_id = Str []\<rparr>))
          (mounted unlimited (map_of [(''token'', ''a1''), (''refresh_token'', ''r1'')])))))
     CHAT_ID_STORAGE_KEY = Some [] \<and>
   fst (getActiveChatId ''a1'' (Response True (Some \<lparr>active_chat_id = Str ''c2''\<rparr>))
       (snd (getActiveChatId ''a1'' (Response True (Some \<lparr>active_chat_id = Str []\<rparr>))
          (mounted unlimited (map_of [(''token'', ''a1''), (''refresh_token'', ''r1'')]))))) =
     Some ''c2'' \<and>
   fetches (snd (getActiveChatId ''a1'' (Response True (Some \<lparr>active_chat_id = Str ''c2''\<rparr>))
       (snd (getActiveChatId ''a1'' (Response True (Some \<lparr>active_chat_id = Str []\<rparr>))
          (mounted unlimited (map_of [(''token'', ''a1''), (''refresh_token'', ''r1'')])))))) =
     [PostSetChatId ''a1'', PostSetChatId ''a1''] \<and>
   getItem (localStorage (snd
       (getActiveChatId ''a1'' (Response True (Some \<lparr>active_chat_id = Str ''c2''\<rparr>))
          (snd (getActiveChatId ''a1'' (Response True (Some \<lparr>active_chat_id = Str []\<rparr>))
             (mounted unlimited (map_of [(''token'', ''a1''), (''refresh_token'', ''r1'')])))))))
     CHAT_ID_STORAGE_KEY = Some ''c2''"
  by (simp add: getActiveChatId_def fetch_def mounted_def storage_defs)

text \<open>
  C7. Selecting the chat that is already active does nothing: \<open>handleSelectChat\<close> returns
  without an error and with the world it was given, so no history request is sent and the
  persisted identifier, the chat identifier, the history and the sessions are what they
  were.
\<close>

theorem handleSelectChat_active_noop:
  "chatId w = Some selectedChatId \<Longrightarrow>
     handleSelectChat selectedChatId response w = (None, w)"
  by (simp add: handleSelectChat_def split: option.splits)

theorem handleSelectChat_active_noop_witness:
  "chatId ((mounted unlimited
          (map_of [(''token'', ''a1''), (''refresh_token'', ''r1''), (''active_chat_id'', ''c1'')]))
             \<lparr>chatId := Some ''c1'', loading := False\<rparr>) = Some ''c1'' \<and>
   handleSelectChat ''c1'' (Response True (Some \<lparr>history = Some [''hello'']\<rparr>))
       ((mounted unlimited
          (map_of [(''token'', ''a1''), (''refresh_token'', ''r1''), (''active_chat_id'', ''c1'')]))
          \<lparr>chatId := Some ''c1'', loading := False\<rparr>) =
     (None,
      (mounted unlimited
          (map_of [(''token'', ''a1''), (''refresh_token'', ''r1''), (''active_chat_id'', ''c1'')]))
       \<lparr>chatId := Some ''c1'', loading := False\<rparr>)"
  using handleSelectChat_active_noop
    [of "(mounted unlimited
          (map_of [(''token'', ''a1''), (''refresh_token'', ''r1''), (''active_chat_id'', ''c1'')]))
          \<lparr>chatId := Some ''c1'', loading := False\<rparr>" "''c1''"
        "Response True (Some \<lparr>history = Some [''hello'']\<rparr>)"]
  by (simp add: mounted_def)

section \<open>Who keeps the pair whole\<close>




end
